theory Spec2Isabelle
  imports Complex_Main "HOL-Library.AList" "HOL-Library.Sublist"
begin

section \<open>Python strings\<close>

text \<open>
  A Python \<open>str\<close> is a sequence of code points. The model covers the code points below
  256: a \<^typ>\<open>char\<close> is the code point of the same number, so \<open>len\<close> is
  \<^const>\<open>length\<close>. The three tables below are the ones of CPython for that range.
\<close>

definition is_space :: "char \<Rightarrow> bool" where
  \<comment> \<open>\<open>str.isspace\<close>: the characters \<open>str.strip()\<close> removes.\<close>
  "is_space c = ((of_char c :: nat) \<in> {9, 10, 11, 12, 13, 28, 29, 30, 31, 32, 133, 160})"

definition lower_char :: "char \<Rightarrow> char" where
  "lower_char c =
     (let n = (of_char c :: nat)
      in if (65 \<le> n \<and> n \<le> 90) \<or> (192 \<le> n \<and> n \<le> 222 \<and> n \<noteq> 215)
         then char_of (n + 32) else c)"

definition lower :: "string \<Rightarrow> string" where
  \<comment> \<open>\<open>str.lower()\<close>\<close>
  "lower s = map lower_char s"

definition strip :: "string \<Rightarrow> string" where
  \<comment> \<open>\<open>str.strip()\<close> with no argument\<close>
  "strip s = rev (dropWhile is_space (rev (dropWhile is_space s)))"

definition adjust_index :: "nat \<Rightarrow> int \<Rightarrow> nat" where
  \<comment> \<open>How a slice bound is read against a sequence of length \<open>n\<close>: a negative bound
      counts from the end, and the result is clipped to \<open>0..n\<close>.\<close>
  "adjust_index n i = (if i < 0 then nat (max 0 (i + int n)) else min (nat i) n)"

definition slice :: "'a list \<Rightarrow> int \<Rightarrow> int \<Rightarrow> 'a list" where
  \<comment> \<open>\<open>s[i:j]\<close>\<close>
  "slice s i j =
     (let a = adjust_index (length s) i; b = adjust_index (length s) j
      in take (b - a) (drop a s))"

definition slice_to :: "'a list \<Rightarrow> int \<Rightarrow> 'a list" where
  \<comment> \<open>\<open>s[:j]\<close>\<close>
  "slice_to s j = take (adjust_index (length s) j) s"

fun rfind_down :: "string \<Rightarrow> string \<Rightarrow> nat \<Rightarrow> nat \<Rightarrow> int" where
  \<comment> \<open>The highest index among \<open>lo, ..., lo + k - 1\<close> at which \<open>sub\<close> occurs, or -1.\<close>
  "rfind_down s sub lo 0 = - 1"
| "rfind_down s sub lo (Suc k) =
     (if take (length sub) (drop (lo + k) s) = sub then int (lo + k)
      else rfind_down s sub lo k)"

definition rfind :: "string \<Rightarrow> string \<Rightarrow> int \<Rightarrow> int \<Rightarrow> int" where
  \<comment> \<open>\<open>s.rfind(sub, start, end)\<close> for a non-empty \<open>sub\<close>: the bounds are read as slice
      bounds (\<open>start\<close> is not clipped from above), and the occurrence lies inside them.\<close>
  "rfind s sub start end =
     (let n = int (length s);
          e = (if end > n then n else if end < 0 then max 0 (end + n) else end);
          b = (if start < 0 then max 0 (start + n) else start);
          m = int (length sub)
      in if e - b < m then - 1 else rfind_down s sub (nat b) (nat (e - b - m + 1)))"

fun contains :: "string \<Rightarrow> string \<Rightarrow> bool" where
  \<comment> \<open>\<open>sub in s\<close>\<close>
  "contains sub [] = (sub = [])"
| "contains sub (c # cs) = (take (length sub) (c # cs) = sub \<or> contains sub cs)"

section \<open>Configuration (config.py)\<close>

definition CHUNK_SIZE :: int where "CHUNK_SIZE = 1000"
definition CHUNK_OVERLAP :: int where "CHUNK_OVERLAP = 200"

definition or_default :: "int option \<Rightarrow> int \<Rightarrow> int" where
  \<comment> \<open>\<open>x or d\<close> for an optional integer argument: \<open>None\<close> and 0 are both falsy.\<close>
  "or_default x d = (case x of None \<Rightarrow> d | Some v \<Rightarrow> if v = 0 then d else v)"

section \<open>The chunker (vector\_store.py, \<open>_chunk_text\<close>)\<close>

definition window_end :: "string \<Rightarrow> int \<Rightarrow> int \<Rightarrow> int" where
  \<comment> \<open>The value of \<open>end\<close> when the chunk is cut: the raw offset, moved back to a sentence
      or word boundary in the second half of the window.\<close>
  "window_end text chunk_size start =
     (let end = start + chunk_size
      in if end < int (length text) then
           (let sentence_end = rfind text ''. '' start end
            in if sentence_end \<noteq> - 1 \<and> sentence_end > start + chunk_size div 2
               then sentence_end + 1
               else (let word_end = rfind text '' '' start end
                     in if word_end \<noteq> - 1 \<and> word_end > start + chunk_size div 2
                        then word_end else end))
         else end)"

definition next_start :: "string \<Rightarrow> int \<Rightarrow> int \<Rightarrow> int \<Rightarrow> int" where
  \<comment> \<open>\<open>start = max(start + 1, end - overlap)\<close>\<close>
  "next_start text chunk_size overlap start =
     max (start + 1) (window_end text chunk_size start - overlap)"

definition add_chunk :: "string \<Rightarrow> int \<Rightarrow> int \<Rightarrow> string list \<Rightarrow> string list" where
  \<comment> \<open>\<open>chunk = text[start:end].strip()\<close>, appended when it is not empty\<close>
  "add_chunk text start end chunks =
     (let chunk = strip (slice text start end)
      in if chunk \<noteq> [] then chunks @ [chunk] else chunks)"

function chunk_loop :: "string \<Rightarrow> int \<Rightarrow> int \<Rightarrow> int \<Rightarrow> string list \<Rightarrow> string list" where
  "chunk_loop text chunk_size overlap start chunks =
     (if start < int (length text) then
        (if next_start text chunk_size overlap start \<ge> int (length text)
         then add_chunk text start (window_end text chunk_size start) chunks
         else chunk_loop text chunk_size overlap (next_start text chunk_size overlap start)
                (add_chunk text start (window_end text chunk_size start) chunks))
      else chunks)"
  by pat_completeness auto
termination
  by (relation "measure (\<lambda>(text, chunk_size, overlap, start, chunks). nat (int (length text) - start))")
     (auto simp: next_start_def)

declare chunk_loop.simps [simp del]

definition chunk_text :: "string \<Rightarrow> int option \<Rightarrow> int option \<Rightarrow> string list" where
  "chunk_text text chunk_size_arg overlap_arg =
     (let chunk_size = or_default chunk_size_arg CHUNK_SIZE;
          overlap = or_default overlap_arg CHUNK_OVERLAP
      in if int (length text) \<le> chunk_size then [text]
         else chunk_loop text chunk_size overlap 0 [])"

text \<open>
  The windows the loop visits, as pairs of \<open>start\<close> and \<open>end\<close>: the same recursion as
  \<^const>\<open>chunk_loop\<close>, recording the loop variables instead of the chunks.
\<close>

function chunk_windows :: "string \<Rightarrow> int \<Rightarrow> int \<Rightarrow> int \<Rightarrow> (int \<times> int) list" where
  "chunk_windows text chunk_size overlap start =
     (if start < int (length text) then
        (if next_start text chunk_size overlap start \<ge> int (length text)
         then [(start, window_end text chunk_size start)]
         else (start, window_end text chunk_size start) #
              chunk_windows text chunk_size overlap (next_start text chunk_size overlap start))
      else [])"
  by pat_completeness auto
termination
  by (relation "measure (\<lambda>(text, chunk_size, overlap, start). nat (int (length text) - start))")
     (auto simp: next_start_def)

declare chunk_windows.simps [simp del]

fun forward_progress :: "int \<Rightarrow> (int \<times> int) list \<Rightarrow> bool" where
  \<comment> \<open>Each window starts after the one before it, at \<open>max (start + 1) (end - overlap)\<close>.\<close>
  "forward_progress overlap (w # w' # ws) =
     (fst w' = max (fst w + 1) (snd w - overlap) \<and> fst w < fst w' \<and>
      forward_progress overlap (w' # ws))"
| "forward_progress overlap ws = True"

section \<open>Documents, chunks and search results\<close>

text \<open>
  The source passes dictionaries. A document is read with \<open>document.get(key, '')\<close>, so an
  absent field and an empty one are the same to it, and the record below carries every
  field. (The random UUID that \<open>add_document\<close> gives a document with no \<open>id\<close> key is
  outside the model.) The metadata of a stored chunk has no \<open>source_url\<close> and no
  \<open>external_source\<close> key; they are empty and \<open>False\<close> there. Scores are Python floats;
  the model computes with real numbers.
\<close>

record document =
  doc_id :: string
  doc_title :: string
  doc_content :: string
  doc_author :: string
  doc_date :: string
  doc_topic :: string
  doc_type :: string
  doc_source_url :: string

record metadata =
  md_document_id :: string
  md_chunk_index :: nat
  md_title :: string
  md_author :: string
  md_date :: string
  md_topic :: string
  md_type :: string
  md_source_url :: string
  md_chunk_text :: string
  md_external_source :: bool

record result =
  res_id :: string
  res_content :: string
  res_metadata :: metadata
  res_distance :: real
  similarity_score :: real
  advanced_score :: "real option"

section \<open>Key terms (\<open>_extract_key_terms\<close>)\<close>

definition is_ascii_letter :: "char \<Rightarrow> bool" where
  \<comment> \<open>the class \<open>[a-zA-Z]\<close>\<close>
  "is_ascii_letter c =
     (let n = (of_char c :: nat) in (65 \<le> n \<and> n \<le> 90) \<or> (97 \<le> n \<and> n \<le> 122))"

definition is_word_char :: "char \<Rightarrow> bool" where
  \<comment> \<open>the class \<open>\w\<close> of a \<open>str\<close> pattern, which decides where \<open>\b\<close> matches\<close>
  "is_word_char c =
     (let n = (of_char c :: nat)
      in (48 \<le> n \<and> n \<le> 57) \<or> (65 \<le> n \<and> n \<le> 90) \<or> n = 95 \<or> (97 \<le> n \<and> n \<le> 122) \<or>
         n \<in> {170, 178, 179, 181, 185, 186, 188, 189, 190} \<or>
         (192 \<le> n \<and> n \<noteq> 215 \<and> n \<noteq> 247))"

fun scan_words :: "bool \<Rightarrow> string option \<Rightarrow> string \<Rightarrow> string list" where
  \<comment> \<open>\<open>re.findall(r'\b[a-zA-Z]+\b', s)\<close>, read left to right: a match is a maximal run of
      letters with no word character on either side. \<open>prev\<close> says whether the character
      before is a word character, \<open>cur\<close> holds the run being read when it began at a
      word boundary.\<close>
  "scan_words prev cur [] = (case cur of Some run \<Rightarrow> [run] | None \<Rightarrow> [])"
| "scan_words prev cur (c # cs) =
     (if is_ascii_letter c then
        (case cur of
           Some run \<Rightarrow> scan_words True (Some (run @ [c])) cs
         | None \<Rightarrow> if prev then scan_words True None cs else scan_words True (Some [c]) cs)
      else
        (case cur of
           Some run \<Rightarrow> if is_word_char c then scan_words True None cs
                       else run # scan_words False None cs
         | None \<Rightarrow> scan_words (is_word_char c) None cs))"

definition findall_words :: "string \<Rightarrow> string list" where
  "findall_words s = scan_words False None s"

fun join :: "string \<Rightarrow> string list \<Rightarrow> string" where
  \<comment> \<open>\<open>sep.join(xs)\<close>\<close>
  "join sep [] = []"
| "join sep [x] = x"
| "join sep (x # y # ys) = x @ sep @ join sep (y # ys)"

fun split_scan :: "string \<Rightarrow> string \<Rightarrow> string list" where
  "split_scan cur [] = (if cur = [] then [] else [cur])"
| "split_scan cur (c # cs) =
     (if is_space c then (if cur = [] then split_scan [] cs else cur # split_scan [] cs)
      else split_scan (cur @ [c]) cs)"

definition split :: "string \<Rightarrow> string list" where
  \<comment> \<open>\<open>s.split()\<close>: the maximal runs of characters that are not whitespace\<close>
  "split s = split_scan [] s"

definition stop_words :: "string list" where
  "stop_words =
     [''the'', ''a'', ''an'', ''and'', ''or'', ''but'', ''in'', ''on'', ''at'', ''to'', ''for'',
      ''of'', ''with'', ''by'', ''is'', ''are'', ''was'', ''were'', ''be'', ''been'', ''being'',
      ''have'', ''has'', ''had'', ''do'', ''does'', ''did'', ''will'', ''would'', ''could'',
      ''should'', ''may'', ''might'', ''can'', ''what'', ''how'', ''when'', ''where'', ''why'']"

definition extract_key_terms :: "string \<Rightarrow> string" where
  \<comment> \<open>The same body in \<open>AdvancedRAGRetriever\<close> and in \<open>MemoryManager\<close>.\<close>
  "extract_key_terms text =
     (let words = findall_words (lower text);
          key_terms = filter (\<lambda>word. word \<notin> set stop_words \<and> length word > 2) words
      in join '' '' (take 5 key_terms))"

section \<open>Deduplication (rag\_retriever.py, \<open>_deduplicate_results\<close>)\<close>

text \<open>
  \<open>hash\<close> is Python's built-in string hash. It is fixed within one process and unknown
  otherwise, so it is a parameter.
\<close>

definition content_hash :: "(string \<Rightarrow> int) \<Rightarrow> result \<Rightarrow> int" where
  \<comment> \<open>\<open>hash(result['content'][:200].lower().strip())\<close>\<close>
  "content_hash hash r = hash (strip (lower (slice_to (res_content r) 200)))"

fun dedup_loop :: "(string \<Rightarrow> int) \<Rightarrow> result list \<Rightarrow> int set \<Rightarrow> result list \<Rightarrow> result list" where
  "dedup_loop hash [] seen_content deduplicated = deduplicated"
| "dedup_loop hash (r # rs) seen_content deduplicated =
     (if content_hash hash r \<notin> seen_content
      then dedup_loop hash rs (insert (content_hash hash r) seen_content) (deduplicated @ [r])
      else dedup_loop hash rs seen_content deduplicated)"

definition deduplicate_results :: "(string \<Rightarrow> int) \<Rightarrow> result list \<Rightarrow> result list" where
  "deduplicate_results hash results =
     (if results = [] then results else dedup_loop hash results {} [])"

section \<open>Reranking (rag\_retriever.py, \<open>_rerank_results\<close>)\<close>

definition type_boost :: "string \<Rightarrow> real" where
  \<comment> \<open>\<open>type_boost.get(content_type, 1.0)\<close>\<close>
  "type_boost content_type =
     (if content_type = ''research_paper'' then 1.2
      else if content_type = ''technical_report'' then 1.1
      else if content_type = ''wikipedia_article'' then 1.05
      else if content_type = ''news_article'' then 1.0
      else if content_type = ''summary'' then 0.95
      else 1.0)"

definition title_matches :: "string \<Rightarrow> result \<Rightarrow> nat" where
  \<comment> \<open>\<open>sum(1 for term in query_terms if term in title)\<close>\<close>
  "title_matches query r =
     (let title = lower (md_title (res_metadata r));
          query_terms = split (lower (extract_key_terms query))
      in length (filter (\<lambda>term. contains term title) query_terms))"

definition calculate_advanced_score :: "string \<Rightarrow> result \<Rightarrow> real" where
  "calculate_advanced_score query r =
     (let base_score = similarity_score r;
          content_type = md_type (res_metadata r);
          score = base_score * type_boost content_type;
          date_str = md_date (res_metadata r);
          score = (if date_str \<noteq> [] \<and> contains ''2024'' date_str then score * 1.1 else score);
          content_length = length (res_content r);
          score = (if content_length > 2000 then score * 1.05
                   else if content_length < 500 then score * 0.95 else score);
          n = title_matches query r;
          score = (if n > 0 then score * (1 + 0.1 * real n) else score)
      in score)"

definition rerank_results :: "string \<Rightarrow> result list \<Rightarrow> result list" where
  \<comment> \<open>\<open>sorted(..., reverse=True)\<close> is stable: equal scores keep their order.\<close>
  "rerank_results query results =
     sort_key (\<lambda>r. - the (advanced_score r))
       (map (\<lambda>r. r\<lparr>advanced_score := Some (calculate_advanced_score query r)\<rparr>) results)"

section \<open>Search-pattern tracking (memory\_manager.py)\<close>

text \<open>
  A dictionary is an association list in insertion order. The memory state on disk is
  written by \<open>_save_memory_state\<close>, which changes no field of the manager; it is left out.
\<close>

record memory_manager =
  document_checksums :: "(string \<times> string) list"
  search_patterns :: "(string \<times> int) list"
  popular_topics :: "string set"

definition dict_get :: "('k \<times> 'v) list \<Rightarrow> 'k \<Rightarrow> 'v \<Rightarrow> 'v" where
  \<comment> \<open>\<open>d.get(k, default)\<close>\<close>
  "dict_get d k dflt = (case map_of d k of None \<Rightarrow> dflt | Some v \<Rightarrow> v)"

fun count_terms :: "string list \<Rightarrow> (string \<times> int) list \<Rightarrow> (string \<times> int) list" where
  \<comment> \<open>the first loop of \<open>track_search_pattern\<close>\<close>
  "count_terms [] patterns = patterns"
| "count_terms (term # terms) patterns =
     (if length term > 3
      then count_terms terms (AList.update term (dict_get patterns term 0 + 1) patterns)
      else count_terms terms patterns)"

fun admit_popular :: "(string \<times> int) list \<Rightarrow> string set \<Rightarrow> string set" where
  \<comment> \<open>the second loop: every term counted 5 times or more becomes a popular topic\<close>
  "admit_popular [] topics = topics"
| "admit_popular ((term, count) # items) topics =
     (if count \<ge> 5 then admit_popular items (insert term topics)
      else admit_popular items topics)"

definition track_search_pattern :: "memory_manager \<Rightarrow> string \<Rightarrow> nat \<Rightarrow> memory_manager" where
  "track_search_pattern mm query results_found =
     (let key_terms = extract_key_terms query;
          patterns = count_terms (split key_terms) (search_patterns mm)
      in mm\<lparr>search_patterns := patterns,
             popular_topics := admit_popular patterns (popular_topics mm)\<rparr>)"

fun track_searches :: "memory_manager \<Rightarrow> (string \<times> nat) list \<Rightarrow> memory_manager" where
  \<comment> \<open>a sequence of \<open>track_search_pattern\<close> calls\<close>
  "track_searches mm [] = mm"
| "track_searches mm ((query, results_found) # searches) =
     track_searches (track_search_pattern mm query results_found) searches"

section \<open>The outside world\<close>

text \<open>
  The embedding provider, the ChromaDB collection, the content aggregator and the hash
  functions are not code of this repository. The collection is modelled by the list of
  the entries it holds, in insertion order, with unique ids kept by \<open>add\<close>, and with
  the check ChromaDB makes of the \<open>include\<close> argument of \<open>get\<close>. Everything
  else the code cannot know is a field of the record \<open>world\<close>: what the embedding
  provider answers for a text (\<open>None\<close> when the call raises), whether a call on the
  collection raises, which neighbours a query returns, what the aggregator gathers
  (\<open>None\<close> when it raises), Python's \<open>hash\<close>, MD5, and the wording of a summary of
  results (it formats floats and iterates over sets).
\<close>

record entry =
  entry_id :: string
  entry_embedding :: "real list"
  entry_document :: string
  entry_metadata :: metadata

datatype index_call =
    CallAdd string
  | CallQuery "real list" int
  | CallGetAll
  | CallGetWhere string
  | CallDelete "string list"

record world =
  embeddings_create :: "string \<Rightarrow> real list option"
  index_raises :: "entry list \<Rightarrow> index_call \<Rightarrow> bool"
  index_query :: "entry list \<Rightarrow> real list \<Rightarrow> int \<Rightarrow> (entry \<times> real) list"
  gather_comprehensive_content :: "string \<Rightarrow> document list option"
  py_hash :: "string \<Rightarrow> int"
  md5_hexdigest :: "string \<Rightarrow> string"
  summary_text :: "string \<Rightarrow> result list \<Rightarrow> string"

text \<open>
  The vector store holds the collection. \<open>calls\<close> records the calls of
  \<open>delete_document\<close> and \<open>add_document\<close> made on the store, in order; the code has no
  such field, it is kept to say how often the index was asked to change.
\<close>

datatype store_call = DeleteDocument string | AddDocument string

record vector_store =
  collection :: "entry list"
  calls :: "store_call list"

section \<open>The vector store (vector\_store.py)\<close>

definition generate_embedding :: "world \<Rightarrow> string \<Rightarrow> real list" where
  \<comment> \<open>\<open>_generate_embedding\<close>: the empty list when the provider raises\<close>
  "generate_embedding w text =
     (case embeddings_create w (map (\<lambda>c. if c = CHR 0x0A then CHR '' '' else c) text) of
        None \<Rightarrow> []
      | Some embedding \<Rightarrow> embedding)"

fun str :: "nat \<Rightarrow> string" where
  \<comment> \<open>\<open>str(i)\<close> of a non-negative integer\<close>
  "str n = (if n < 10 then [char_of (48 + n)] else str (n div 10) @ [char_of (48 + n mod 10)])"

declare str.simps [simp del]

definition collection_add :: "world \<Rightarrow> entry list \<Rightarrow> entry \<Rightarrow> entry list option" where
  \<comment> \<open>\<open>collection.add\<close> of one entry: \<open>None\<close> when it raises. An id already present is
      not stored a second time.\<close>
  "collection_add w coll e =
     (if index_raises w coll (CallAdd (entry_id e)) then None
      else if entry_id e \<in> entry_id ` set coll then Some coll
      else Some (coll @ [e]))"

definition chunk_metadata :: "document \<Rightarrow> nat \<Rightarrow> string \<Rightarrow> metadata" where
  "chunk_metadata doc i chunk =
     \<lparr>md_document_id = doc_id doc, md_chunk_index = i, md_title = doc_title doc,
      md_author = doc_author doc, md_date = doc_date doc, md_topic = doc_topic doc,
      md_type = doc_type doc, md_source_url = [], md_chunk_text = slice_to chunk 500,
      md_external_source = False\<rparr>"

fun add_chunks ::
  "world \<Rightarrow> document \<Rightarrow> (nat \<times> string) list \<Rightarrow> string list \<Rightarrow> entry list \<Rightarrow> string list \<times> entry list"
where
  \<comment> \<open>the loop of \<open>add_document\<close> over \<open>enumerate(chunks)\<close>\<close>
  "add_chunks w doc [] chunk_ids coll = (chunk_ids, coll)"
| "add_chunks w doc ((i, chunk) # rest) chunk_ids coll =
     (let chunk_id = doc_id doc @ ''_chunk_'' @ str i;
          chunk_ids = chunk_ids @ [chunk_id];
          embedding = generate_embedding w chunk
      in if embedding = [] then add_chunks w doc rest chunk_ids coll
         else (case collection_add w coll
                      \<lparr>entry_id = chunk_id, entry_embedding = embedding, entry_document = chunk,
                       entry_metadata = chunk_metadata doc i chunk\<rparr> of
                 None \<Rightarrow> add_chunks w doc rest chunk_ids coll
               | Some coll' \<Rightarrow> add_chunks w doc rest chunk_ids coll'))"

definition add_document :: "world \<Rightarrow> vector_store \<Rightarrow> document \<Rightarrow> string list \<times> vector_store" where
  "add_document w vs doc =
     (let vs = vs\<lparr>calls := calls vs @ [AddDocument (doc_id doc)]\<rparr>;
          content = doc_content doc
      in if content = [] then ([], vs)
         else (let chunks = chunk_text content None None;
                   (chunk_ids, coll) = add_chunks w doc (enumerate 0 chunks) [] (collection vs)
               in (chunk_ids, vs\<lparr>collection := coll\<rparr>)))"



definition collection_get ::
  "world \<Rightarrow> entry list \<Rightarrow> string option \<Rightarrow> string list \<Rightarrow> entry list option" where
  \<comment> \<open>\<open>collection.get(where={"document_id": d}, include=...)\<close>, and with no \<open>where\<close> for
      \<open>None\<close>: the entries found, or \<open>None\<close> when the call raises. ChromaDB checks
      \<open>include\<close> against the names of the fields it can return beside the ids (the ids
      always come back); any other name, so \<open>'ids'\<close>, is a \<open>ValueError\<close>.\<close>
  "collection_get w coll where_document_id include =
     (if ''ids'' \<in> set include then None
      else (case where_document_id of
              None \<Rightarrow> if index_raises w coll CallGetAll then None else Some coll
            | Some d \<Rightarrow>
                if index_raises w coll (CallGetWhere d) then None
                else Some (filter (\<lambda>e. md_document_id (entry_metadata e) = d) coll)))"

definition delete_document :: "world \<Rightarrow> vector_store \<Rightarrow> string \<Rightarrow> bool \<times> vector_store" where
  \<comment> \<open>The source asks for \<open>include=['ids']\<close>. Every exception is caught and gives
      \<open>False\<close>.\<close>
  "delete_document w vs document_id =
     (let vs = vs\<lparr>calls := calls vs @ [DeleteDocument document_id]\<rparr>
      in case collection_get w (collection vs) (Some document_id) [''ids''] of
           None \<Rightarrow> (False, vs)
         | Some found \<Rightarrow>
             (let ids = map entry_id found
              in if ids \<noteq> [] then
                   (if index_raises w (collection vs) (CallDelete ids) then (False, vs)
                    else (True, vs\<lparr>collection :=
                                      filter (\<lambda>e. entry_id e \<notin> set ids) (collection vs)\<rparr>))
                 else (False, vs)))"

definition update_document :: "world \<Rightarrow> vector_store \<Rightarrow> document \<Rightarrow> string list \<times> vector_store" where
  "update_document w vs doc =
     (if doc_id doc = [] then ([], vs)
      else add_document w (snd (delete_document w vs (doc_id doc))) doc)"

section \<open>Retrieval (rag\_retriever.py)\<close>









section \<open>Change detection and cleanup (memory\_manager.py)\<close>

definition calculate_document_checksum :: "world \<Rightarrow> document \<Rightarrow> string" where
  "calculate_document_checksum w doc =
     md5_hexdigest w (doc_title doc @ doc_content doc @ doc_author doc)"

definition add_document_with_tracking ::
  "world \<Rightarrow> memory_manager \<Rightarrow> vector_store \<Rightarrow> document \<Rightarrow> string list \<times> memory_manager \<times> vector_store"
where
  "add_document_with_tracking w mm vs doc =
     (if doc_id doc = [] then ([], mm, vs)
      else (let checksum = calculate_document_checksum w doc;
                (chunk_ids, vs) = add_document w vs doc
            in if chunk_ids \<noteq> []
               then (chunk_ids,
                     mm\<lparr>document_checksums :=
                          AList.update (doc_id doc) checksum (document_checksums mm)\<rparr>, vs)
               else (chunk_ids, mm, vs)))"

definition update_document_if_changed ::
  "world \<Rightarrow> memory_manager \<Rightarrow> vector_store \<Rightarrow> document \<Rightarrow> bool \<times> memory_manager \<times> vector_store"
where
  "update_document_if_changed w mm vs doc =
     (if doc_id doc = [] then (False, mm, vs)
      else (let new_checksum = calculate_document_checksum w doc;
                old_checksum = map_of (document_checksums mm) (doc_id doc)
            in if old_checksum \<noteq> Some new_checksum then
                 (let (chunk_ids, vs) = update_document w vs doc
                  in if chunk_ids \<noteq> []
                     then (True,
                           mm\<lparr>document_checksums :=
                                AList.update (doc_id doc) new_checksum (document_checksums mm)\<rparr>,
                           vs)
                     else (False, mm, vs))
               else (False, mm, vs)))"

subsection \<open>Dates\<close>

text \<open>
  A \<open>datetime\<close> is the pair of its proleptic Gregorian ordinal (day 1 is 0001-01-01, the
  last day 9999-12-31 is 3652059) and the microseconds since midnight.
\<close>

type_synonym datetime = "int \<times> int"

definition datetime_less :: "datetime \<Rightarrow> datetime \<Rightarrow> bool" where
  "datetime_less a b = (fst a < fst b \<or> (fst a = fst b \<and> snd a < snd b))"

definition is_digit :: "char \<Rightarrow> bool" where
  "is_digit c = (let n = (of_char c :: nat) in 48 \<le> n \<and> n \<le> 57)"

definition digit :: "char \<Rightarrow> nat" where
  "digit c = of_char c - 48"

definition is_leap :: "nat \<Rightarrow> bool" where
  "is_leap y = (y mod 4 = 0 \<and> (y mod 100 \<noteq> 0 \<or> y mod 400 = 0))"

definition days_in_month :: "nat \<Rightarrow> nat \<Rightarrow> nat" where
  "days_in_month y m =
     (if m = 2 then (if is_leap y then 29 else 28)
      else if m \<in> {4, 6, 9, 11} then 30 else 31)"

definition ymd2ord :: "nat \<Rightarrow> nat \<Rightarrow> nat \<Rightarrow> int" where
  "ymd2ord y m d =
     int ((y - 1) * 365 + (y - 1) div 4 - (y - 1) div 100 + (y - 1) div 400 +
          sum_list (map (days_in_month y) [1..<m]) + d)"

fun match_year :: "string \<Rightarrow> (nat \<times> string) option" where
  \<comment> \<open>\<open>\d\d\d\d\<close>\<close>
  "match_year (a # b # c # d # rest) =
     (if is_digit a \<and> is_digit b \<and> is_digit c \<and> is_digit d
      then Some (1000 * digit a + 100 * digit b + 10 * digit c + digit d, rest) else None)"
| "match_year _ = None"

fun match_month :: "string \<Rightarrow> (nat \<times> string) option" where
  \<comment> \<open>\<open>1[0-2]|0[1-9]|[1-9]\<close>, followed by the hyphen\<close>
  "match_month (a # b # c # rest) =
     (if a = CHR ''1'' \<and> b \<in> {CHR ''0'', CHR ''1'', CHR ''2''} \<and> c = CHR ''-''
        then Some (10 + digit b, rest)
      else if a = CHR ''0'' \<and> is_digit b \<and> b \<noteq> CHR ''0'' \<and> c = CHR ''-''
        then Some (digit b, rest)
      else if is_digit a \<and> a \<noteq> CHR ''0'' \<and> b = CHR ''-'' then Some (digit a, c # rest)
      else None)"
| "match_month [a, b] =
     (if is_digit a \<and> a \<noteq> CHR ''0'' \<and> b = CHR ''-'' then Some (digit a, []) else None)"
| "match_month _ = None"

fun match_day :: "string \<Rightarrow> (nat \<times> string) option" where
  \<comment> \<open>\<open>3[0-1]|[1-2]\d|0[1-9]|[1-9]| [1-9]\<close>: the first alternative that matches\<close>
  "match_day (a # b # rest) =
     (if a = CHR ''3'' \<and> b \<in> {CHR ''0'', CHR ''1''} then Some (30 + digit b, rest)
      else if a \<in> {CHR ''1'', CHR ''2''} \<and> is_digit b then Some (10 * digit a + digit b, rest)
      else if a = CHR ''0'' \<and> is_digit b \<and> b \<noteq> CHR ''0'' then Some (digit b, rest)
      else if is_digit a \<and> a \<noteq> CHR ''0'' then Some (digit a, b # rest)
      else if a = CHR '' '' \<and> is_digit b \<and> b \<noteq> CHR ''0'' then Some (digit b, rest)
      else None)"
| "match_day [a] = (if is_digit a \<and> a \<noteq> CHR ''0'' then Some (digit a, []) else None)"
| "match_day [] = None"

definition strptime :: "string \<Rightarrow> datetime option" where
  \<comment> \<open>\<open>datetime.strptime(s, '%Y-%m-%d')\<close>; \<open>None\<close> is the \<open>ValueError\<close>, of the
      pattern or of the range checks of the \<open>datetime\<close> constructor\<close>
  "strptime s =
     (case match_year s of
        None \<Rightarrow> None
      | Some (y, s1) \<Rightarrow>
          (case s1 of
             [] \<Rightarrow> None
           | h # s2 \<Rightarrow>
               if h \<noteq> CHR ''-'' then None
               else (case match_month s2 of
                       None \<Rightarrow> None
                     | Some (m, s3) \<Rightarrow>
                         (case match_day s3 of
                            None \<Rightarrow> None
                          | Some (d, s4) \<Rightarrow>
                              if s4 \<noteq> [] then None
                              else if y < 1 \<or> m < 1 \<or> 12 < m \<or> d < 1 \<or>
                                      days_in_month y m < d then None
                              else Some (ymd2ord y m d, 0)))))"

definition cutoff_date :: "datetime \<Rightarrow> int \<Rightarrow> datetime option" where
  \<comment> \<open>\<open>datetime.now() - timedelta(days=max_age_days)\<close>; \<open>None\<close> is the \<open>OverflowError\<close> of a
      \<open>timedelta\<close> beyond 999999999 days or of a date outside the years 1 to 9999\<close>
  "cutoff_date now max_age_days =
     (if max_age_days < - 999999999 \<or> max_age_days > 999999999 then None
      else if fst now - max_age_days < 1 \<or> fst now - max_age_days > 3652059 then None
      else Some (fst now - max_age_days, snd now))"

subsection \<open>\<open>cleanup_outdated_content\<close>\<close>

fun collect_outdated :: "datetime \<Rightarrow> metadata list \<Rightarrow> string list \<Rightarrow> string list" where
  \<comment> \<open>The scan of the stored metadata. \<open>outdated_doc_ids\<close> is a Python set: here the list
      of its members, without repetition.\<close>
  "collect_outdated cutoff [] outdated_doc_ids = outdated_doc_ids"
| "collect_outdated cutoff (m # ms) outdated_doc_ids =
     (if md_date m \<noteq> [] then
        (case strptime (md_date m) of
           None \<Rightarrow> collect_outdated cutoff ms outdated_doc_ids
         | Some parsed_date \<Rightarrow>
             if datetime_less parsed_date cutoff \<and> md_document_id m \<noteq> []
             then collect_outdated cutoff ms (List.insert (md_document_id m) outdated_doc_ids)
             else collect_outdated cutoff ms outdated_doc_ids)
      else collect_outdated cutoff ms outdated_doc_ids)"

fun remove_outdated ::
  "world \<Rightarrow> string list \<Rightarrow> memory_manager \<Rightarrow> vector_store \<Rightarrow> memory_manager \<times> vector_store" where
  "remove_outdated w [] mm vs = (mm, vs)"
| "remove_outdated w (document_id # rest) mm vs =
     (case delete_document w vs document_id of
        (True, vs') \<Rightarrow>
          remove_outdated w rest
            (mm\<lparr>document_checksums := AList.delete document_id (document_checksums mm)\<rparr>) vs'
      | (False, vs') \<Rightarrow> remove_outdated w rest mm vs')"

definition cleanup_outdated_content ::
  "world \<Rightarrow> datetime \<Rightarrow> memory_manager \<Rightarrow> vector_store \<Rightarrow> int \<Rightarrow> memory_manager \<times> vector_store"
where
  \<comment> \<open>Any exception, of the index or of the date arithmetic, ends the call.\<close>
  "cleanup_outdated_content w now mm vs max_age_days =
     (case collection_get w (collection vs) None [''metadatas''] of
        None \<Rightarrow> (mm, vs)
      | Some found \<Rightarrow>
          (let metadatas = map entry_metadata found
           in if metadatas = [] then (mm, vs)
              else (case cutoff_date now max_age_days of
                      None \<Rightarrow> (mm, vs)
                    | Some cutoff \<Rightarrow>
                        remove_outdated w (collect_outdated cutoff metadatas []) mm vs)))"

section \<open>Auxiliary notions and example inputs\<close>

text \<open>
  Two worlds: in \<open>w_down\<close> the embedding provider fails on every text, in \<open>w_up\<close> it
  answers; in both the index raises nothing, a query finds nothing and the aggregator
  gathers nothing. \<open>md5_hexdigest\<close> is the identity there, which has no collisions.
\<close>

definition reached :: "(string \<times> int) list \<Rightarrow> string \<Rightarrow> bool" where
  \<comment> \<open>the dictionary holds a count of 5 or more for the term\<close>
  "reached patterns t = (\<exists>c. (t, c) \<in> set patterns \<and> 5 \<le> c)"

definition rated :: "string \<Rightarrow> real \<Rightarrow> result" where
  \<comment> \<open>a result of 600 characters with the given type and similarity, no date, and a title
      that shares no term with the example query\<close>
  "rated content_type similarity =
     \<lparr>res_id = content_type @ ''_chunk_0'', res_content = replicate 600 CHR ''x'',
      res_metadata =
        \<lparr>md_document_id = content_type, md_chunk_index = 0, md_title = ''notes'',
         md_author = [], md_date = [], md_topic = [], md_type = content_type,
         md_source_url = [], md_chunk_text = [], md_external_source = False\<rparr>,
      res_distance = 1 - similarity, similarity_score = similarity, advanced_score = None\<rparr>"

definition mm0 :: memory_manager where
  "mm0 = \<lparr>document_checksums = [], search_patterns = [(''vector'', 4)], popular_topics = {''index''}\<rparr>"

definition w_down :: world where
  "w_down = \<lparr>embeddings_create = (\<lambda>text. None), index_raises = (\<lambda>coll call. False),
     index_query = (\<lambda>coll embedding k. []), gather_comprehensive_content = (\<lambda>topic. Some []),
     py_hash = (\<lambda>s. int (length s)), md5_hexdigest = (\<lambda>s. s),
     summary_text = (\<lambda>query results. ''summary'')\<rparr>"

definition w_up :: world where
  "w_up = w_down\<lparr>embeddings_create := (\<lambda>text. Some [1])\<rparr>"

definition vs0 :: vector_store where
  "vs0 = \<lparr>collection = [], calls = []\<rparr>"

definition d1 :: document where
  "d1 = \<lparr>doc_id = ''d1'', doc_title = ''Notes'', doc_content = ''hello world'',
     doc_author = ''Ann'', doc_date = ''2024-01-01'', doc_topic = ''misc'',
     doc_type = ''summary'', doc_source_url = ''''\<rparr>"

definition mm1 :: memory_manager where
  "mm1 = \<lparr>document_checksums = [(''d1'', ''Noteshello worldAnn'')], search_patterns = [],
     popular_topics = {}\<rparr>"

definition vs1 :: vector_store where
  "vs1 = snd (add_document w_up vs0 d1)"

text \<open>
  What the claim about cleanup speaks of: a date string that parses to a date before
  \<open>now - max_age_days\<close> (computed on unbounded integers), and a document, named by a
  non-empty id, one of whose stored chunks carries such a date.
\<close>

definition older_than :: "datetime \<Rightarrow> int \<Rightarrow> string \<Rightarrow> bool" where
  "older_than now max_age_days date_str =
     (case strptime date_str of
        None \<Rightarrow> False
      | Some parsed_date \<Rightarrow> datetime_less parsed_date (fst now - max_age_days, snd now))"

definition doc_outdated :: "datetime \<Rightarrow> int \<Rightarrow> entry list \<Rightarrow> string \<Rightarrow> bool" where
  "doc_outdated now max_age_days coll document_id =
     (document_id \<noteq> [] \<and>
      list_ex (\<lambda>e. md_document_id (entry_metadata e) = document_id \<and>
                    older_than now max_age_days (md_date (entry_metadata e))) coll)"

definition dated_entry :: "string \<Rightarrow> string \<Rightarrow> entry" where
  "dated_entry document_id date_str =
     \<lparr>entry_id = document_id @ ''_chunk_0'', entry_embedding = [1], entry_document = ''text'',
      entry_metadata =
        \<lparr>md_document_id = document_id, md_chunk_index = 0, md_title = ''Notes'',
         md_author = ''Ann'', md_date = date_str, md_topic = ''misc'', md_type = ''summary'',
         md_source_url = [], md_chunk_text = ''text'', md_external_source = False\<rparr>\<rparr>"

definition now0 :: datetime where
  \<comment> \<open>2024-07-19 12:00:00\<close>
  "now0 = (739086, 43200000000)"

definition vs5 :: vector_store where
  \<comment> \<open>documents dated 10, 45, 91, 120 and 200 days before \<open>now0\<close>\<close>
  "vs5 = \<lparr>collection =
            [dated_entry ''a'' ''2024-07-09'', dated_entry ''b'' ''2024-06-04'',
             dated_entry ''c'' ''2024-04-19'', dated_entry ''d'' ''2024-03-21'',
             dated_entry ''e'' ''2024-01-01''],
          calls = []\<rparr>"

definition dated_result :: "string \<Rightarrow> result" where
  \<comment> \<open>a news article of 600 characters with similarity 1/2 and the given date\<close>
  "dated_result date_str =
     (rated ''news_article'' (1 / 2))
       \<lparr>res_metadata := (res_metadata (rated ''news_article'' (1 / 2)))\<lparr>md_date := date_str\<rparr>\<rparr>"

section \<open>Theorems\<close>

subsection \<open>The chunker\<close>

lemma strip_trimmed:
  "strip s = [] \<or> (\<not> is_space (hd (strip s)) \<and> \<not> is_space (last (strip s)))"
proof (cases "strip s = []")
  case True then show ?thesis by simp
next
  case False
  let ?a = "dropWhile is_space s"
  let ?b = "dropWhile is_space (rev ?a)"
  have b: "?b \<noteq> []" using False by (simp add: strip_def)
  then have hb: "\<not> is_space (hd ?b)" by (rule hd_dropWhile)
  have a: "?a \<noteq> []" using b by (cases "?a") auto
  then have ha: "\<not> is_space (hd ?a)" by (rule hd_dropWhile)
  have l: "last (strip s) = hd ?b" using b by (simp add: strip_def last_rev)
  have "\<not> is_space (last (rev ?a))" using a ha by (simp add: last_rev)
  moreover have "last (rev ?a) \<in> set (rev ?a)" using a by (intro last_in_set) simp
  ultimately have "last ?b = last (rev ?a)"
    by (intro dropWhile_last)
  then have "hd (strip s) = hd ?a" using a b by (simp add: strip_def hd_rev last_rev)
  then show ?thesis using ha hb l by simp
qed

lemma add_chunk_trimmed:
  assumes "\<forall>c \<in> set chunks. c \<noteq> [] \<and> \<not> is_space (hd c) \<and> \<not> is_space (last c)"
  shows "\<forall>c \<in> set (add_chunk t s e chunks). c \<noteq> [] \<and> \<not> is_space (hd c) \<and> \<not> is_space (last c)"
  using assms strip_trimmed [of "slice t s e"] by (auto simp: add_chunk_def Let_def)

lemma chunk_loop_trimmed:
  "\<forall>c \<in> set chunks. c \<noteq> [] \<and> \<not> is_space (hd c) \<and> \<not> is_space (last c) \<Longrightarrow>
   \<forall>c \<in> set (chunk_loop t cs ov start chunks). c \<noteq> [] \<and> \<not> is_space (hd c) \<and> \<not> is_space (last c)"
proof (induction t cs ov start chunks rule: chunk_loop.induct)
  case (1 t cs ov start chunks)
  show ?case
  proof (cases "start < int (length t)")
    case False
    then show ?thesis using "1.prems" by (subst chunk_loop.simps) simp
  next
    case True
    note lt = this
    let ?chunks = "add_chunk t start (window_end t cs start) chunks"
    have ok: "\<forall>c \<in> set ?chunks. c \<noteq> [] \<and> \<not> is_space (hd c) \<and> \<not> is_space (last c)"
      using "1.prems" by (rule add_chunk_trimmed)
    show ?thesis
    proof (cases "next_start t cs ov start \<ge> int (length t)")
      case True
      then show ?thesis using lt ok by (subst chunk_loop.simps) simp
    next
      case False
      then show ?thesis using lt "1.IH" [OF lt False ok] by (subst chunk_loop.simps) simp
    qed
  qed
qed

lemma chunk_loop_windows:
  "chunk_loop t cs ov start chunks =
   foldl (\<lambda>acc w. add_chunk t (fst w) (snd w) acc) chunks (chunk_windows t cs ov start)"
proof (induction t cs ov start chunks rule: chunk_loop.induct)
  case (1 t cs ov start chunks)
  show ?case
    using 1 by (subst chunk_loop.simps, subst chunk_windows.simps) simp
qed

lemma chunk_windows_length:
  "length (chunk_windows t cs ov start) \<le> nat (int (length t) - start)"
proof (induction t cs ov start rule: chunk_windows.induct)
  case (1 t cs ov start)
  show ?case
  proof (cases "start < int (length t) \<and> \<not> next_start t cs ov start \<ge> int (length t)")
    case True
    then have "start + 1 \<le> next_start t cs ov start" by (simp add: next_start_def)
    then show ?thesis using True 1 by (subst chunk_windows.simps) auto
  next
    case False
    then show ?thesis by (subst chunk_windows.simps) auto
  qed
qed

lemma chunk_windows_hd:
  "chunk_windows t cs ov start \<noteq> [] \<Longrightarrow> hd (chunk_windows t cs ov start) = (start, window_end t cs start)"
  by (subst (asm) chunk_windows.simps, subst chunk_windows.simps) (auto split: if_splits)

lemma chunk_windows_progress:
  "forward_progress ov (chunk_windows t cs ov start)"
proof (induction t cs ov start rule: chunk_windows.induct)
  case (1 t cs ov start)
  show ?case
  proof (cases "start < int (length t) \<and> \<not> next_start t cs ov start \<ge> int (length t)")
    case False
    then show ?thesis by (subst chunk_windows.simps) auto
  next
    case True
    let ?n = "next_start t cs ov start"
    let ?rest = "chunk_windows t cs ov ?n"
    have eq: "chunk_windows t cs ov start = (start, window_end t cs start) # ?rest"
      using True by (subst chunk_windows.simps) simp
    have ih: "forward_progress ov ?rest" using True 1 by simp
    have ne: "?rest \<noteq> []" using True by (subst chunk_windows.simps) auto
    then obtain w ws where r: "?rest = w # ws" by (cases ?rest) auto
    have "fst w = ?n" using chunk_windows_hd [OF ne] r by simp
    then show ?thesis using eq r ih by (simp add: next_start_def)
  qed
qed


lemma or_default_Some: "or_default (Some v) d = (if v = 0 then d else v)"
  by (simp add: or_default_def)

text \<open>
  Claim C5, as amended. For every text, every \<open>chunk_size > 0\<close> and every overlap argument,
  the windows of the chunking loop make strict forward progress: each window starts at
  \<open>max (previous_start + 1) (window_end - overlap)\<close>, which is beyond the previous start,
  where \<open>overlap\<close> is the overlap the loop uses: the argument, or the configured 200 when
  the argument is 0 or absent. The loop visits at most \<open>len(text)\<close> windows, and the
  chunks returned are cut from exactly these windows.
\<close>

theorem chunk_text_forward_progress:
  "0 < chunk_size \<Longrightarrow>
   forward_progress (or_default overlap_arg CHUNK_OVERLAP)
     (chunk_windows t chunk_size (or_default overlap_arg CHUNK_OVERLAP) 0) \<and>
   length (chunk_windows t chunk_size (or_default overlap_arg CHUNK_OVERLAP) 0) \<le> length t \<and>
   chunk_text t (Some chunk_size) overlap_arg =
     (if int (length t) \<le> chunk_size then [t]
      else foldl (\<lambda>acc w. add_chunk t (fst w) (snd w) acc) []
             (chunk_windows t chunk_size (or_default overlap_arg CHUNK_OVERLAP) 0))"
proof (intro conjI)
  show "forward_progress (or_default overlap_arg CHUNK_OVERLAP)
     (chunk_windows t chunk_size (or_default overlap_arg CHUNK_OVERLAP) 0)"
    by (rule chunk_windows_progress)
  show "length (chunk_windows t chunk_size (or_default overlap_arg CHUNK_OVERLAP) 0) \<le> length t"
    using chunk_windows_length [of t chunk_size "or_default overlap_arg CHUNK_OVERLAP" 0] by simp
  assume "0 < chunk_size"
  then show "chunk_text t (Some chunk_size) overlap_arg =
     (if int (length t) \<le> chunk_size then [t]
      else foldl (\<lambda>acc w. add_chunk t (fst w) (snd w) acc) []
             (chunk_windows t chunk_size (or_default overlap_arg CHUNK_OVERLAP) 0))"
    by (simp add: chunk_text_def or_default_Some chunk_loop_windows)
qed

theorem chunk_text_forward_progress_witness:
  "(0::int) < 5 \<and>
   forward_progress 7 (chunk_windows ''aaaaaaaaaaaa'' 5 7 0) \<and>
   length (chunk_windows ''aaaaaaaaaaaa'' 5 7 0) \<le> 12 \<and>
   chunk_text ''aaaaaaaaaaaa'' (Some 5) (Some 7) =
     foldl (\<lambda>acc w. add_chunk ''aaaaaaaaaaaa'' (fst w) (snd w) acc) []
       (chunk_windows ''aaaaaaaaaaaa'' 5 7 0)"
  using chunk_text_forward_progress [of 5 "Some 7" "''aaaaaaaaaaaa''"]
  by (simp add: or_default_Some)

text \<open>
  With the overlap argument 0 the loop runs with overlap 200: on twelve letters and
  \<open>chunk_size = 5\<close> the second window starts at 1, not at \<open>max (0 + 1) (5 - 0) = 5\<close>.
\<close>

theorem chunk_overlap_zero_counterexample:
  "chunk_text ''aaaaaaaaaaaa'' (Some 5) (Some 0) = chunk_loop ''aaaaaaaaaaaa'' 5 200 0 [] \<and>
   take 2 (chunk_windows ''aaaaaaaaaaaa'' 5 200 0) = [(0, 5), (1, 6)] \<and>
   (1::int) \<noteq> max (0 + 1) (5 - 0)"
proof (intro conjI)
  show "chunk_text ''aaaaaaaaaaaa'' (Some 5) (Some 0) = chunk_loop ''aaaaaaaaaaaa'' 5 200 0 []"
    by (simp add: chunk_text_def or_default_Some CHUNK_OVERLAP_def)
  show "take 2 (chunk_windows ''aaaaaaaaaaaa'' 5 200 0) = [(0, 5), (1, 6)]"
    by code_simp
  show "(1::int) \<noteq> max (0 + 1) (5 - 0)" by simp
qed

text \<open>
  Claim C10, as amended. When the text is longer than the chunk size, every chunk returned
  is non-empty and has no leading or trailing whitespace. When \<open>len(text) \<le> chunk_size\<close>
  the result is the one-element list holding the text as it is.
\<close>

theorem chunk_text_trimmed:
  "(int (length t) \<le> or_default chunk_size_arg CHUNK_SIZE \<longrightarrow>
      chunk_text t chunk_size_arg overlap_arg = [t]) \<and>
   (or_default chunk_size_arg CHUNK_SIZE < int (length t) \<longrightarrow>
      (\<forall>c \<in> set (chunk_text t chunk_size_arg overlap_arg).
          c \<noteq> [] \<and> \<not> is_space (hd c) \<and> \<not> is_space (last c)))"
proof (intro conjI impI)
  assume "int (length t) \<le> or_default chunk_size_arg CHUNK_SIZE"
  then show "chunk_text t chunk_size_arg overlap_arg = [t]"
    by (simp add: chunk_text_def)
next
  assume "or_default chunk_size_arg CHUNK_SIZE < int (length t)"
  then have "chunk_text t chunk_size_arg overlap_arg =
      chunk_loop t (or_default chunk_size_arg CHUNK_SIZE) (or_default overlap_arg CHUNK_OVERLAP) 0 []"
    by (simp add: chunk_text_def)
  then show "\<forall>c \<in> set (chunk_text t chunk_size_arg overlap_arg).
          c \<noteq> [] \<and> \<not> is_space (hd c) \<and> \<not> is_space (last c)"
    using chunk_loop_trimmed [of "[]"] by simp
qed

theorem chunk_text_trimmed_witness:
  "or_default (Some 20) CHUNK_SIZE < int (length ''Hello world. This is a test. Another sentence here.'') \<and>
   list_all (\<lambda>c. c \<noteq> [] \<and> \<not> is_space (hd c) \<and> \<not> is_space (last c))
     (chunk_text ''Hello world. This is a test. Another sentence here.'' (Some 20) (Some 5)) \<and>
   int (length ''tiny'') \<le> or_default None CHUNK_SIZE \<and>
   chunk_text ''tiny'' None None = [''tiny'']"
proof -
  have a: "or_default (Some 20) CHUNK_SIZE < int (length ''Hello world. This is a test. Another sentence here.'')"
    by (simp add: or_default_Some)
  have b: "int (length ''tiny'') \<le> or_default None CHUNK_SIZE"
    by (simp add: or_default_def CHUNK_SIZE_def)
  show ?thesis
    using a b
      chunk_text_trimmed [of "''Hello world. This is a test. Another sentence here.''" "Some 20" "Some 5"]
      chunk_text_trimmed [of "''tiny''" None None]
    by (simp add: list_all_iff)
qed

text \<open>
  A short text is returned untrimmed, and the empty text as one empty chunk.
\<close>

theorem chunk_text_short_counterexample:
  "chunk_text '' a '' None None = ['' a ''] \<and> is_space (hd '' a '') \<and> is_space (last '' a '') \<and>
   chunk_text [] None None = [[]]"
  by (simp add: chunk_text_def or_default_def CHUNK_SIZE_def is_space_def)

subsection \<open>Deduplication\<close>

lemma dedup_loop_append:
  "dedup_loop h rs seen acc = acc @ dedup_loop h rs seen []"
proof (induction rs arbitrary: seen acc)
  case Nil
  show ?case by simp
next
  case (Cons r rs)
  show ?case
    using Cons.IH [of "insert (content_hash h r) seen" "acc @ [r]"]
          Cons.IH [of "insert (content_hash h r) seen" "[r]"]
          Cons.IH [of seen acc]
    by simp
qed

lemma dedup_loop_Cons:
  "dedup_loop h (r # rs) seen [] =
     (if content_hash h r \<in> seen then dedup_loop h rs seen []
      else r # dedup_loop h rs (insert (content_hash h r) seen) [])"
  using dedup_loop_append [of h rs "insert (content_hash h r) seen" "[r]"] by simp

lemma dedup_loop_keys:
  "content_hash h ` set (dedup_loop h rs seen []) = content_hash h ` set rs - seen"
proof (induction rs arbitrary: seen)
  case Nil
  show ?case by simp
next
  case (Cons r rs)
  show ?case unfolding dedup_loop_Cons using Cons.IH by auto
qed

lemma dedup_loop_distinct:
  "distinct (map (content_hash h) (dedup_loop h rs seen []))"
proof (induction rs arbitrary: seen)
  case Nil
  show ?case by simp
next
  case (Cons r rs)
  show ?case unfolding dedup_loop_Cons
    using Cons.IH dedup_loop_keys [of h rs "insert (content_hash h r) seen"] by auto
qed

lemma dedup_loop_fixed:
  "distinct (map (content_hash h) rs) \<Longrightarrow> content_hash h ` set rs \<inter> seen = {} \<Longrightarrow>
   dedup_loop h rs seen [] = rs"
proof (induction rs arbitrary: seen)
  case Nil
  show ?case by simp
next
  case (Cons r rs)
  have "content_hash h ` set rs \<inter> insert (content_hash h r) seen = {}"
    using Cons.prems by auto
  then show ?case unfolding dedup_loop_Cons using Cons.IH Cons.prems by auto
qed

lemma dedup_loop_subseq: "subseq (dedup_loop h rs seen []) rs"
proof (induction rs arbitrary: seen)
  case Nil
  show ?case by simp
next
  case (Cons r rs)
  show ?case unfolding dedup_loop_Cons using Cons.IH by (auto intro: subseq_Cons2)
qed

lemma dedup_loop_find:
  "find (\<lambda>r. content_hash h r = k) (dedup_loop h rs seen []) =
     (if k \<in> seen then None else find (\<lambda>r. content_hash h r = k) rs)"
proof (induction rs arbitrary: seen)
  case Nil
  show ?case by simp
next
  case (Cons r rs)
  show ?case unfolding dedup_loop_Cons using Cons.IH by auto
qed

lemma deduplicate_results_loop: "deduplicate_results h rs = dedup_loop h rs {} []"
  by (simp add: deduplicate_results_def)

text \<open>
  Claim C6. Deduplication is idempotent. It keeps a subsequence of the results (their
  order is preserved), the hashes of the results kept are distinct, and for every hash
  the result kept is the first of the input with that hash (first seen wins), where the
  hash is \<^const>\<open>content_hash\<close>: Python's hash of the lowercased, stripped first 200
  characters of the content.
\<close>

theorem deduplicate_results_idempotent:
  "deduplicate_results h (deduplicate_results h results) = deduplicate_results h results \<and>
   subseq (deduplicate_results h results) results \<and>
   distinct (map (content_hash h) (deduplicate_results h results)) \<and>
   (\<forall>k. find (\<lambda>r. content_hash h r = k) (deduplicate_results h results) =
        find (\<lambda>r. content_hash h r = k) results)"
proof -
  have "dedup_loop h (dedup_loop h results {} []) {} [] = dedup_loop h results {} []"
    by (rule dedup_loop_fixed) (simp_all add: dedup_loop_distinct)
  then show ?thesis
    by (simp add: deduplicate_results_loop dedup_loop_subseq dedup_loop_distinct
        dedup_loop_find)
qed

subsection \<open>Reranking\<close>

text \<open>
  The scores of the source are floats and those of the model real numbers, so a statement
  about all scores is one of real numbers. At the example inputs below the source
  multiplies a power of two (\<open>0.5\<close> or \<open>-0.5\<close>) by \<open>1.0\<close>, \<open>1.1\<close> or \<open>1.2\<close> and
  nothing else, which is exact in floats: it gets the floats written \<open>0.5\<close>, \<open>0.55\<close>,
  \<open>-0.5\<close> and \<open>-0.6\<close>, in the order the model gives.
\<close>

lemma example_query_terms:
  "split (lower (extract_key_terms ''vector search'')) = [''vector'', ''search'']"
  by (simp add: extract_key_terms_def findall_words_def lower_def lower_char_def
      is_ascii_letter_def is_word_char_def stop_words_def split_def is_space_def Let_def)

lemma lower_notes: "lower ''notes'' = ''notes''"
  by (simp add: lower_def lower_char_def)

lemma rated_score:
  "calculate_advanced_score ''vector search'' (rated content_type s) = s * type_boost content_type"
  by (simp add: calculate_advanced_score_def title_matches_def example_query_terms rated_def
      lower_notes Let_def)

text \<open>
  Claim C9 fails on the code. The code reads no clock: the year it looks for is the
  literal \<open>2024\<close>. A result dated 2026-11-03 or 2025-06-01 is scored 1/2, without the
  boost, whatever the current year is; the same result dated 2024-01-01 is scored
  11/20, with it. (In floats as well: \<open>0.5 * 1.0 * 1.1\<close> is \<open>0.55\<close>.)
\<close>

theorem recency_boost_fixed_year:
  "calculate_advanced_score ''vector search'' (dated_result ''2026-11-03'') = 1 / 2 \<and>
   calculate_advanced_score ''vector search'' (dated_result ''2025-06-01'') = 1 / 2 \<and>
   calculate_advanced_score ''vector search'' (dated_result ''2024-01-01'') = 11 / 20"
  by (simp add: calculate_advanced_score_def title_matches_def example_query_terms rated_def
      dated_result_def lower_notes type_boost_def Let_def)

text \<open>
  Claim C8 fails on the code for negative similarities. Two results identical except for
  their type, with the similarity -1/2 (a distance of 3/2): the research paper gets the
  advanced score -3/5, the news article -1/2, and reranking puts the research paper last.
\<close>

theorem rerank_negative_similarity:
  "calculate_advanced_score ''vector search'' (rated ''research_paper'' (- 1 / 2)) = - 3 / 5 \<and>
   calculate_advanced_score ''vector search'' (rated ''news_article'' (- 1 / 2)) = - 1 / 2 \<and>
   map (\<lambda>r. (md_type (res_metadata r), advanced_score r))
     (rerank_results ''vector search''
        [rated ''research_paper'' (- 1 / 2), rated ''news_article'' (- 1 / 2)]) =
     [(''news_article'', Some (- 1 / 2)), (''research_paper'', Some (- 3 / 5))]"
proof -
  have a: "calculate_advanced_score ''vector search'' (rated ''research_paper'' (- 1 / 2)) = - 3 / 5"
    by (simp add: rated_score type_boost_def)
  have b: "calculate_advanced_score ''vector search'' (rated ''news_article'' (- 1 / 2)) = - 1 / 2"
    by (simp add: rated_score type_boost_def)
  have c: "md_type (res_metadata (rated t s)) = t" for t s
    by (simp add: rated_def)
  have d: "map (\<lambda>r. (md_type (res_metadata r), advanced_score r))
     (rerank_results ''vector search''
        [rated ''research_paper'' (- 1 / 2), rated ''news_article'' (- 1 / 2)]) =
     [(''news_article'', Some (- 1 / 2)), (''research_paper'', Some (- 3 / 5))]"
    by (simp add: rated_score type_boost_def c rerank_results_def)
  show ?thesis using a b d by blast
qed

text \<open>For a similarity that is not negative the research paper never scores lower.\<close>

lemma type_boost_le: "type_boost t \<le> type_boost ''research_paper''"
  by (simp add: type_boost_def)

lemma rerank_research_paper_nonnegative:
  assumes "0 \<le> similarity_score r" and "md_type (res_metadata r) = ''research_paper''"
  shows "calculate_advanced_score query (r\<lparr>res_metadata := (res_metadata r)\<lparr>md_type := t\<rparr>\<rparr>)
           \<le> calculate_advanced_score query r"
proof -
  have "similarity_score r * type_boost t \<le> similarity_score r * type_boost ''research_paper''"
    using assms(1) type_boost_le by (rule mult_left_mono [rotated])
  then show ?thesis
    using assms(2)
    by (simp add: calculate_advanced_score_def title_matches_def Let_def mult_right_mono)
qed

subsection \<open>Search-pattern tracking\<close>

lemma count_terms_map_of:
  "map_of (count_terms terms patterns) t =
     (if t \<in> set (filter (\<lambda>term. length term > 3) terms)
      then Some (dict_get patterns t 0 + int (count_list (filter (\<lambda>term. length term > 3) terms) t))
      else map_of patterns t)"
proof (induction terms arbitrary: patterns)
  case Nil
  show ?case by simp
next
  case (Cons x xs)
  show ?case
    by (simp add: Cons.IH update_conv' dict_get_def split: option.splits)
qed

lemma admit_popular_eq:
  "admit_popular items topics = topics \<union> {t. \<exists>c. (t, c) \<in> set items \<and> 5 \<le> c}"
proof (induction items arbitrary: topics)
  case Nil
  show ?case by simp
next
  case (Cons item items)
  show ?case by (cases item) (auto simp: Cons.IH)
qed

lemma update_reached:
  "reached patterns t \<Longrightarrow> reached (AList.update k (dict_get patterns k 0 + 1) patterns) t"
proof (induction patterns)
  case Nil
  then show ?case by (simp add: reached_def)
next
  case (Cons p patterns)
  show ?case
  proof (cases "fst p = k")
    case True
    then show ?thesis using Cons.prems
      by (cases p) (auto simp: reached_def dict_get_def)
  next
    case False
    have eq: "dict_get (p # patterns) k 0 = dict_get patterns k 0"
      using False by (cases p) (simp add: dict_get_def)
    show ?thesis
    proof (cases "\<exists>c. p = (t, c) \<and> 5 \<le> c")
      case True
      then show ?thesis using False by (auto simp: reached_def)
    next
      case no: False
      then have "reached patterns t" using Cons.prems by (auto simp: reached_def)
      then have "reached (AList.update k (dict_get patterns k 0 + 1) patterns) t"
        by (rule Cons.IH)
      then show ?thesis using False eq by (auto simp: reached_def)
    qed
  qed
qed

lemma count_terms_reached:
  "reached patterns t \<Longrightarrow> reached (count_terms terms patterns) t"
  by (induction terms arbitrary: patterns) (auto intro: update_reached)

lemma track_search_pattern_topics:
  "popular_topics (track_search_pattern mm query n) =
     popular_topics mm \<union> {t. reached (search_patterns (track_search_pattern mm query n)) t}"
  by (simp add: track_search_pattern_def Let_def admit_popular_eq reached_def)

lemma track_search_pattern_reached:
  "reached (search_patterns mm) t \<Longrightarrow> reached (search_patterns (track_search_pattern mm query n)) t"
  by (simp add: track_search_pattern_def Let_def count_terms_reached)

lemma track_searches_mono:
  "popular_topics mm \<subseteq> popular_topics (track_searches mm searches)"
proof (induction searches arbitrary: mm)
  case Nil
  show ?case by simp
next
  case (Cons call searches)
  obtain query n where call: "call = (query, n)" by (cases call)
  have "popular_topics mm \<subseteq> popular_topics (track_search_pattern mm query n)"
    by (auto simp: track_search_pattern_topics)
  then show ?case using Cons.IH [of "track_search_pattern mm query n"] call by auto
qed

lemma track_searches_reached:
  "reached (search_patterns mm) t \<Longrightarrow> reached (search_patterns (track_searches mm searches)) t"
proof (induction searches arbitrary: mm)
  case Nil
  then show ?case by simp
next
  case (Cons call searches)
  obtain query n where call: "call = (query, n)" by (cases call)
  show ?case using Cons.IH [OF track_search_pattern_reached [OF Cons.prems, of query n]] call by simp
qed

lemma track_searches_admitted:
  "t \<in> popular_topics (track_searches mm searches) \<Longrightarrow> t \<notin> popular_topics mm \<Longrightarrow>
   reached (search_patterns (track_searches mm searches)) t"
proof (induction searches arbitrary: mm)
  case Nil
  then show ?case by simp
next
  case (Cons call searches)
  obtain query n where call: "call = (query, n)" by (cases call)
  let ?mm = "track_search_pattern mm query n"
  show ?case
  proof (cases "t \<in> popular_topics ?mm")
    case True
    then have "reached (search_patterns ?mm) t"
      using Cons.prems(2) track_search_pattern_topics [of mm query n] by auto
    then show ?thesis using track_searches_reached call by simp
  next
    case False
    then show ?thesis using Cons.IH [of ?mm] Cons.prems(1) call by simp
  qed
qed

text \<open>
  Claim C7. Whatever sequence of \<open>track_search_pattern\<close> calls is made, every popular topic
  stays one; a term that was not popular before and is after has a count of 5 or more in
  \<open>search_patterns\<close>; and one call changes the count of a term only when the term is one of
  the key terms of the query and longer than 3 characters, adding to it the number of
  times the term occurs among them.
\<close>

theorem track_search_pattern_monotonic:
  "popular_topics mm \<subseteq> popular_topics (track_searches mm searches) \<and>
   (\<forall>t. t \<in> popular_topics (track_searches mm searches) \<and> t \<notin> popular_topics mm \<longrightarrow>
        (\<exists>c. (t, c) \<in> set (search_patterns (track_searches mm searches)) \<and> 5 \<le> c)) \<and>
   (\<forall>t. map_of (search_patterns (track_search_pattern mm query n)) t =
        (if t \<in> set (split (extract_key_terms query)) \<and> length t > 3
         then Some (dict_get (search_patterns mm) t 0 +
                    int (count_list (split (extract_key_terms query)) t))
         else map_of (search_patterns mm) t))"
proof (intro conjI allI impI)
  show "popular_topics mm \<subseteq> popular_topics (track_searches mm searches)"
    by (rule track_searches_mono)
next
  fix t
  assume "t \<in> popular_topics (track_searches mm searches) \<and> t \<notin> popular_topics mm"
  then have "reached (search_patterns (track_searches mm searches)) t"
    using track_searches_admitted by blast
  then show "\<exists>c. (t, c) \<in> set (search_patterns (track_searches mm searches)) \<and> 5 \<le> c"
    by (simp add: reached_def)
next
  fix t :: string
  have "count_list (filter (\<lambda>term. length term > 3) ts) t = (if length t > 3 then count_list ts t else 0)" for ts
    by (induction ts) auto
  then show "map_of (search_patterns (track_search_pattern mm query n)) t =
        (if t \<in> set (split (extract_key_terms query)) \<and> length t > 3
         then Some (dict_get (search_patterns mm) t 0 +
                    int (count_list (split (extract_key_terms query)) t))
         else map_of (search_patterns mm) t)"
    by (simp add: track_search_pattern_def Let_def count_terms_map_of)
qed

theorem track_search_pattern_monotonic_witness:
  "popular_topics (track_searches mm0 [(''vector search'', 3)]) = {''index'', ''vector''} \<and>
   ''vector'' \<notin> popular_topics mm0 \<and>
   (\<exists>c. (''vector'', c) \<in> set (search_patterns (track_searches mm0 [(''vector search'', 3)])) \<and> 5 \<le> c) \<and>
   map_of (search_patterns (track_search_pattern mm0 ''vector search'' 3)) ''vector'' = Some 5 \<and>
   map_of (search_patterns (track_search_pattern mm0 ''vector search'' 3)) ''the'' = None"
proof -
  have kt: "split (extract_key_terms ''vector search'') = [''vector'', ''search'']"
    by (simp add: extract_key_terms_def findall_words_def lower_def lower_char_def
        is_ascii_letter_def is_word_char_def stop_words_def split_def is_space_def Let_def)
  have tr: "track_search_pattern mm0 ''vector search'' 3 =
        \<lparr>document_checksums = [], search_patterns = [(''vector'', 5), (''search'', 1)],
         popular_topics = {''index'', ''vector''}\<rparr>"
    by (auto simp: track_search_pattern_def kt mm0_def dict_get_def)
  have a: "''vector'' \<in> popular_topics (track_searches mm0 [(''vector search'', 3)]) \<and>
        ''vector'' \<notin> popular_topics mm0"
    by (simp add: tr; simp add: mm0_def)
  note inst = track_search_pattern_monotonic [of mm0 "[(''vector search'', 3)]" "''vector search''" 3]
  from inst a have b: "\<exists>c. (''vector'', c) \<in> set (search_patterns (track_searches mm0 [(''vector search'', 3)])) \<and> 5 \<le> c"
    by blast
  from inst have c: "map_of (search_patterns (track_search_pattern mm0 ''vector search'' 3)) ''vector'' = Some 5"
    "map_of (search_patterns (track_search_pattern mm0 ''vector search'' 3)) ''the'' = None"
    by (simp_all add: kt; simp add: mm0_def dict_get_def)+
  show ?thesis using a b c by (simp add: tr)
qed

subsection \<open>Ingestion\<close>

lemma add_chunks_ids:
  "fst (add_chunks w doc ichunks chunk_ids coll) =
     chunk_ids @ map (\<lambda>(i, chunk). doc_id doc @ ''_chunk_'' @ str i) ichunks"
proof (induction ichunks arbitrary: chunk_ids coll)
  case Nil
  show ?case by simp
next
  case (Cons ic ichunks)
  show ?case by (cases ic) (simp add: Cons.IH Let_def split: option.splits)
qed

lemma add_document_ids:
  "fst (add_document w vs doc) =
     (if doc_content doc = [] then []
      else map (\<lambda>(i, chunk). doc_id doc @ ''_chunk_'' @ str i)
             (enumerate 0 (chunk_text (doc_content doc) None None)))"
  by (simp add: add_document_def Let_def split_beta add_chunks_ids)

lemma str_0: "str 0 = ''0''"
  by code_simp

text \<open>
  Claim C3 fails on the code in its last part. The chunk ids returned are those of all
  the chunks, whatever failed (\<open>add_document_ids\<close>). With an embedding provider that
  fails, or an index that raises on every call, \<open>add_document\<close> of a one-chunk document
  stores nothing and still returns the id of the chunk.
\<close>

theorem add_document_reports_failed_chunks:
  "add_document w_down vs0 d1 = ([''d1_chunk_0''], \<lparr>collection = [], calls = [AddDocument ''d1'']\<rparr>) \<and>
   add_document (w_up\<lparr>index_raises := (\<lambda>coll call. True)\<rparr>) vs0 d1 =
     ([''d1_chunk_0''], \<lparr>collection = [], calls = [AddDocument ''d1'']\<rparr>)"
  by (simp add: add_document_def w_down_def w_up_def vs0_def d1_def chunk_text_def or_default_def
      CHUNK_SIZE_def generate_embedding_def collection_add_def Let_def str_0)

subsection \<open>Change detection\<close>

lemma delete_document_deletes_nothing:
  "fst (delete_document w vs d) = False \<and> collection (snd (delete_document w vs d)) = collection vs"
  by (simp add: delete_document_def collection_get_def Let_def)

lemma update_document_if_changed_same_checksum:
  "map_of (document_checksums mm) (doc_id doc) = Some (calculate_document_checksum w doc) \<Longrightarrow>
   update_document_if_changed w mm vs doc = (False, mm, vs)"
  by (simp add: update_document_if_changed_def)

lemma vs1_collection:
  "collection vs1 =
     [\<lparr>entry_id = ''d1_chunk_0'', entry_embedding = [1], entry_document = ''hello world'',
       entry_metadata = chunk_metadata d1 0 ''hello world''\<rparr>]"
  by (simp add: vs1_def add_document_def w_up_def w_down_def vs0_def d1_def chunk_text_def
      or_default_def CHUNK_SIZE_def generate_embedding_def collection_add_def Let_def str_0)

text \<open>
  Claim C2 fails on the code in its second half. With the checksum unchanged nothing is
  touched (\<open>update_document_if_changed_same_checksum\<close>). With one character of the
  content changed, \<open>update_document_if_changed\<close> returns \<open>True\<close> and records the new
  checksum, but no chunk is deleted and none is stored: \<open>delete_document\<close> asks the
  collection for \<open>include=['ids']\<close>, which raises, and the new chunk has the id of the old
  one, which stays. The index holds the old text afterwards.
\<close>

theorem update_document_keeps_old_chunks:
  "map_of (document_checksums mm1) ''d1'' = Some (calculate_document_checksum w_up d1) \<and>
   map entry_document (collection vs1) = [''hello world''] \<and>
   fst (update_document_if_changed w_up mm1 vs1 (d1\<lparr>doc_content := ''hello w0rld''\<rparr>)) = True \<and>
   document_checksums
     (fst (snd (update_document_if_changed w_up mm1 vs1 (d1\<lparr>doc_content := ''hello w0rld''\<rparr>)))) =
     [(''d1'', ''Noteshello w0rldAnn'')] \<and>
   map entry_document
     (collection
        (snd (snd (update_document_if_changed w_up mm1 vs1 (d1\<lparr>doc_content := ''hello w0rld''\<rparr>))))) =
     [''hello world'']"
proof -
  let ?d = "d1\<lparr>doc_content := ''hello w0rld''\<rparr>"
  have a: "map_of (document_checksums mm1) ''d1'' = Some (calculate_document_checksum w_up d1)"
    by (simp add: mm1_def calculate_document_checksum_def w_up_def w_down_def d1_def)
  have i: "doc_id ?d = ''d1''" "doc_content ?d = ''hello w0rld''"
    by (simp_all add: d1_def)
  have n: "calculate_document_checksum w_up ?d = ''Noteshello w0rldAnn''"
    by (simp add: calculate_document_checksum_def w_up_def w_down_def d1_def)
  have o: "map_of (document_checksums mm1) ''d1'' = Some ''Noteshello worldAnn''"
    by (simp add: mm1_def)
  have c: "chunk_text ''hello w0rld'' None None = [''hello w0rld'']"
    by (simp add: chunk_text_def or_default_def CHUNK_SIZE_def)
  have g: "generate_embedding w_up ''hello w0rld'' = [1]"
    by (simp add: generate_embedding_def w_up_def w_down_def)
  have m: "''d1_chunk_0'' \<in> entry_id ` set (collection vs1)"
    by (simp add: vs1_collection)
  have r: "\<not> index_raises w_up coll call" for coll call
    by (simp add: w_up_def w_down_def)
  have u1: "fst (update_document w_up vs1 ?d) = [''d1_chunk_0'']"
    by (simp add: update_document_def i add_document_ids c str_0)
  have u2: "collection (snd (update_document w_up vs1 ?d)) = collection vs1"
    by (simp add: update_document_def i add_document_def c g str_0 collection_add_def r m
        delete_document_deletes_nothing Let_def)
  have f: "fst (update_document_if_changed w_up mm1 vs1 ?d) = True"
    by (simp add: update_document_if_changed_def i n o u1 split_beta Let_def)
  have k: "document_checksums (fst (snd (update_document_if_changed w_up mm1 vs1 ?d))) =
             [(''d1'', ''Noteshello w0rldAnn'')]"
    by (simp add: update_document_if_changed_def i n o u1 split_beta Let_def)
       (simp add: mm1_def)
  have l: "collection (snd (snd (update_document_if_changed w_up mm1 vs1 ?d))) = collection vs1"
    by (simp add: update_document_if_changed_def i n o u1 u2 split_beta Let_def)
  show ?thesis
    using a f k by (simp add: l vs1_collection)
qed

subsection \<open>Retrieval when the query cannot be embedded\<close>





subsection \<open>Cleanup\<close>

lemma strptime_Nil: "strptime [] = None"
  by (simp add: strptime_def)

lemma collect_outdated_set:
  "set (collect_outdated cutoff ms acc) =
     set acc \<union> {md_document_id m | m. m \<in> set ms \<and> md_document_id m \<noteq> [] \<and>
                   (\<exists>dt. strptime (md_date m) = Some dt \<and> datetime_less dt cutoff)}"
proof (induction ms arbitrary: acc)
  case Nil
  show ?case by simp
next
  case (Cons m ms)
  show ?case
    by (cases "md_date m = []") (auto simp: Cons.IH strptime_Nil split: option.splits)
qed

lemma older_than_iff:
  "older_than now max_age_days s \<longleftrightarrow>
     (\<exists>dt. strptime s = Some dt \<and> datetime_less dt (fst now - max_age_days, snd now))"
  by (simp add: older_than_def split: option.splits)

text \<open>The scan finds the documents it should: those with an id and a chunk dated before the cutoff.\<close>

lemma collect_outdated_docs:
  "set (collect_outdated (fst now - max_age_days, snd now) (map entry_metadata coll) []) =
     {d. doc_outdated now max_age_days coll d}"
proof -
  have "d \<in> set (collect_outdated (fst now - max_age_days, snd now) (map entry_metadata coll) [])
          \<longleftrightarrow> doc_outdated now max_age_days coll d" for d
  proof
    assume "d \<in> set (collect_outdated (fst now - max_age_days, snd now) (map entry_metadata coll) [])"
    then obtain e dt where "e \<in> set coll" "d = md_document_id (entry_metadata e)" "d \<noteq> []"
      "strptime (md_date (entry_metadata e)) = Some dt"
      "datetime_less dt (fst now - max_age_days, snd now)"
      unfolding collect_outdated_set by auto
    then show "doc_outdated now max_age_days coll d"
      unfolding doc_outdated_def older_than_iff list_ex_iff by blast
  next
    assume "doc_outdated now max_age_days coll d"
    then obtain e dt where e: "e \<in> set coll" "d = md_document_id (entry_metadata e)" "d \<noteq> []"
      "strptime (md_date (entry_metadata e)) = Some dt"
      "datetime_less dt (fst now - max_age_days, snd now)"
      unfolding doc_outdated_def older_than_iff list_ex_iff by blast
    have "entry_metadata e \<in> set (map entry_metadata coll)" using e(1) by simp
    then show "d \<in> set (collect_outdated (fst now - max_age_days, snd now) (map entry_metadata coll) [])"
      unfolding collect_outdated_set using e(2-5) by blast
  qed
  then show ?thesis by blast
qed

text \<open>No deletion gets through, so cleanup leaves every collection as it is.\<close>

lemma remove_outdated_keeps_collection:
  "collection (snd (remove_outdated w ds mm vs)) = collection vs"
proof (induction ds arbitrary: mm vs)
  case Nil
  show ?case by simp
next
  case (Cons d ds)
  obtain b vs' where dd: "delete_document w vs d = (b, vs')"
    by (cases "delete_document w vs d")
  then have "collection vs' = collection vs"
    using delete_document_deletes_nothing [of w vs d] by simp
  then show ?case using dd Cons.IH by (cases b) simp_all
qed

lemma cleanup_keeps_collection:
  "collection (snd (cleanup_outdated_content w now mm vs max_age_days)) = collection vs"
  by (simp add: cleanup_outdated_content_def Let_def remove_outdated_keeps_collection
      split: option.splits)

text \<open>
  Claim C4 fails on the code. In the scenario of the claim, five documents 10, 45, 91,
  120 and 200 days old and \<open>max_age_days = 90\<close>, the scan finds the three oldest, and
  all five are still stored afterwards: each \<open>delete_document\<close> asks the collection for
  \<open>include=['ids']\<close>, which raises, and returns \<open>False\<close>.
\<close>

theorem cleanup_outdated_deletes_nothing:
  "cutoff_date now0 90 = Some (738996, 43200000000) \<and>
   collect_outdated (738996, 43200000000) (map entry_metadata (collection vs5)) [] =
     [''e'', ''d'', ''c''] \<and>
   map (\<lambda>e. md_document_id (entry_metadata e))
     (collection (snd (cleanup_outdated_content w_up now0 mm0 vs5 90))) =
     [''a'', ''b'', ''c'', ''d'', ''e'']"
proof -
  have a: "cutoff_date now0 90 = Some (738996, 43200000000)"
    by (simp add: cutoff_date_def now0_def)
  have p: "map strptime
             [''2024-07-09'', ''2024-06-04'', ''2024-04-19'', ''2024-03-21'', ''2024-01-01''] =
           [Some (739076, 0), Some (739041, 0), Some (738995, 0), Some (738966, 0),
            Some (738886, 0)]"
    by (simp add: strptime_def is_digit_def digit_def days_in_month_def is_leap_def
        ymd2ord_def Let_def upt_rec)
  have b: "collect_outdated (738996, 43200000000) (map entry_metadata (collection vs5)) [] =
     [''e'', ''d'', ''c'']"
    using p by (simp add: vs5_def dated_entry_def datetime_less_def)
  have c: "map (\<lambda>e. md_document_id (entry_metadata e))
     (collection (snd (cleanup_outdated_content w_up now0 mm0 vs5 90))) =
     [''a'', ''b'', ''c'', ''d'', ''e'']"
    by (simp add: cleanup_outdated_content_def collection_get_def w_up_def w_down_def a
          remove_outdated_keeps_collection)
       (simp add: vs5_def dated_entry_def)
  show ?thesis using a b c by blast
qed

end
